theory Spec2Isabelle
  imports
    Main
    "HOL-Library.AList"
    "HOL-Library.Char_ord"
    "HOL-Library.List_Lexorder"
    "HOL-Library.Product_Lexorder"
begin

section \<open>The member directory service (server.js)\<close>

text \<open>
  The program is an Express application over one MongoDB collection, \<open>members\<close>.
  Every handler of server.js that the properties below are about is embedded here as a
  function of the collection (a list of documents, in the store's natural order) and of
  the request's parameters. The query objects and aggregation pipelines are written as
  the handlers build them, and a small interpreter gives them the meaning the store
  gives them.

  Scope of the document model: a value is a scalar or an embedded document, and a
  record holds no arrays; a string is the list of the bytes of its UTF-8 encoding, and
  letter case is folded on the ASCII letters only.
\<close>

subsection \<open>Values and documents\<close>

datatype bval =
    Null
  | Str string
  | Num int
  | Bool bool
  | Date int
  | ObjId string
  | Embedded "(string \<times> bval) list"

type_synonym doc = "(string \<times> bval) list"

text \<open>Reading a field path such as \<open>item._id\<close> or \<open>"$City"\<close>: an absent field reads as null.\<close>

definition fld :: "doc \<Rightarrow> string \<Rightarrow> bval" where
  "fld d k = (case map_of d k of None \<Rightarrow> Null | Some v \<Rightarrow> v)"

text \<open>
  The store's comparison order on values (BSON comparison order): null, then numbers,
  then strings (bytewise), then embedded documents, object ids, booleans and dates. Two
  embedded documents are compared field by field, each field by the type of its value,
  then its name, then its value; a document that ends first is the smaller. The order
  is the lexicographic order of the keys below.
\<close>

fun bson_rank :: "bval \<Rightarrow> nat" where
  "bson_rank Null = 1"
| "bson_rank (Num n) = 2"
| "bson_rank (Str s) = 3"
| "bson_rank (Embedded d) = 4"
| "bson_rank (ObjId h) = 7"
| "bson_rank (Bool b) = 8"
| "bson_rank (Date t) = 9"

fun bson_key :: "bval \<Rightarrow> (nat \<times> int \<times> string) list" where
  "bson_key Null = [(1, 0, [])]"
| "bson_key (Num n) = [(2, n, [])]"
| "bson_key (Str s) = [(3, 0, s)]"
| "bson_key (ObjId h) = [(7, 0, h)]"
| "bson_key (Bool b) = [(8, (if b then 1 else 0), [])]"
| "bson_key (Date t) = [(9, t, [])]"
| "bson_key (Embedded d) =
     (4, 0, []) # concat (map (\<lambda>(k, v). (bson_rank v, 0, k) # bson_key v) d) @ [(0, 0, [])]"

definition bson_le :: "bval \<Rightarrow> bval \<Rightarrow> bool" where
  "bson_le a b = (bson_key a \<le> bson_key b)"

subsection \<open>Strings\<close>

definition lower_char :: "char \<Rightarrow> char" where
  "lower_char c =
     (case map_of (zip ''ABCDEFGHIJKLMNOPQRSTUVWXYZ'' ''abcdefghijklmnopqrstuvwxyz'') c of
        Some l \<Rightarrow> l
      | None \<Rightarrow> c)"

fun starts_with :: "'a list \<Rightarrow> 'a list \<Rightarrow> bool" where
  "starts_with [] s = True"
| "starts_with (p # ps) [] = False"
| "starts_with (p # ps) (c # cs) = (p = c \<and> starts_with ps cs)"

fun contains :: "string \<Rightarrow> string \<Rightarrow> bool" where
  "contains pat [] = (pat = [])"
| "contains pat (c # cs) = (starts_with pat (c # cs) \<or> contains pat cs)"

text \<open>Case-insensitive substring test.\<close>

definition ci_contains :: "string \<Rightarrow> string \<Rightarrow> bool" where
  "ci_contains pat s = contains (map lower_char pat) (map lower_char s)"

text \<open>
  \<open>String.prototype.trim\<close> removes white space and line terminators from both ends.
  A string is the list of the bytes of its UTF-8 encoding, so each of these characters
  is a sequence of one to three bytes: tab, line feed, vertical tab, form feed, carriage
  return, space, U+00A0, U+1680, U+2000 to U+200A, U+2028, U+2029, U+202F, U+205F, U+3000
  and U+FEFF.
\<close>

definition white_space :: "string list" where
  "white_space =
     [[CHR 0x09], [CHR 0x0A], [CHR 0x0B], [CHR 0x0C], [CHR 0x0D], [CHR 0x20],
      [CHR 0xC2, CHR 0xA0],
      [CHR 0xE1, CHR 0x9A, CHR 0x80],
      [CHR 0xE2, CHR 0x80, CHR 0x80], [CHR 0xE2, CHR 0x80, CHR 0x81],
      [CHR 0xE2, CHR 0x80, CHR 0x82], [CHR 0xE2, CHR 0x80, CHR 0x83],
      [CHR 0xE2, CHR 0x80, CHR 0x84], [CHR 0xE2, CHR 0x80, CHR 0x85],
      [CHR 0xE2, CHR 0x80, CHR 0x86], [CHR 0xE2, CHR 0x80, CHR 0x87],
      [CHR 0xE2, CHR 0x80, CHR 0x88], [CHR 0xE2, CHR 0x80, CHR 0x89],
      [CHR 0xE2, CHR 0x80, CHR 0x8A],
      [CHR 0xE2, CHR 0x80, CHR 0xA8], [CHR 0xE2, CHR 0x80, CHR 0xA9],
      [CHR 0xE2, CHR 0x80, CHR 0xAF],
      [CHR 0xE2, CHR 0x81, CHR 0x9F],
      [CHR 0xE3, CHR 0x80, CHR 0x80],
      [CHR 0xEF, CHR 0xBB, CHR 0xBF]]"

text \<open>Removing, from the front of \<open>s\<close>, the sequences of \<open>ws\<close> for as long as one is there.\<close>

function drop_prefixes :: "'a list list \<Rightarrow> 'a list \<Rightarrow> 'a list" where
  "drop_prefixes ws s =
     (case List.find (\<lambda>w. w \<noteq> [] \<and> starts_with w s) ws of
        None \<Rightarrow> s
      | Some w \<Rightarrow> drop_prefixes ws (drop (length w) s))"
  by pat_completeness auto

termination drop_prefixes
proof (relation "measure (\<lambda>(ws, s). length s)")
  show "wf (measure (\<lambda>(ws, s). length s))" by simp
next
  fix ws :: "'a list list" and s w :: "'a list"
  assume "List.find (\<lambda>w. w \<noteq> [] \<and> starts_with w s) ws = Some w"
  then have w: "w \<noteq> []" "starts_with w s"
    by (auto simp: find_Some_iff)
  have "starts_with u t \<Longrightarrow> length u \<le> length t" for u t :: "'a list"
    by (induction u t rule: starts_with.induct) auto
  with w have "length w \<le> length s" by blast
  moreover from w have "0 < length w" by simp
  ultimately have "length s - length w < length s" by linarith
  then show "((ws, drop (length w) s), (ws, s)) \<in> measure (\<lambda>(ws, s). length s)"
    by simp
qed

declare drop_prefixes.simps [simp del]

definition js_trim :: "string \<Rightarrow> string" where
  "js_trim s = rev (drop_prefixes (map rev white_space) (rev (drop_prefixes white_space s)))"

text \<open>Decimal rendering of a number (\<open>Number.prototype.toString\<close> on an integer).\<close>

fun digits :: "nat \<Rightarrow> string" where
  "digits n =
     (if n < 10 then [''0123456789'' ! n]
      else digits (n div 10) @ [''0123456789'' ! (n mod 10)])"

definition show_int :: "int \<Rightarrow> string" where
  "show_int i = (if i < 0 then CHR ''-'' # digits (nat (- i)) else digits (nat i))"

text \<open>
  \<open>item._id.toString()\<close>: calling a method on null throws a TypeError (\<open>None\<close>). The
  text of a date depends on the platform's locale and time zone and is a parameter.
\<close>

fun to_string :: "(int \<Rightarrow> string) \<Rightarrow> bval \<Rightarrow> string option" where
  "to_string date_text Null = None"
| "to_string date_text (Str s) = Some s"
| "to_string date_text (Num n) = Some (show_int n)"
| "to_string date_text (Bool b) = Some (if b then ''true'' else ''false'')"
| "to_string date_text (Date t) = Some (date_text t)"
| "to_string date_text (ObjId h) = Some h"
| "to_string date_text (Embedded d) = Some ''[object Object]''"

subsection \<open>JavaScript object literals\<close>

text \<open>
  An object literal that names a property twice keeps one property, at the position of
  the first occurrence and with the value of the last: \<open>{ $ne: null, $ne: "" }\<close> is the
  object \<open>{ $ne: "" }\<close>. Assignment \<open>o[k] = v\<close> is \<^const>\<open>AList.update\<close>.
\<close>

definition js_object :: "(string \<times> 'a) list \<Rightarrow> (string \<times> 'a) list" where
  "js_object kvs = fold (\<lambda>(k, v) obj. AList.update k v obj) kvs []"

subsection \<open>Regular expressions\<close>

text \<open>
  \<open>{ $regex: search, $options: "i" }\<close> hands the search term to the store as a
  regular expression. A term of ASCII characters none of which is a metacharacter is a
  literal pattern: it matches the strings that contain it, letter case ignored. What
  the store does with any other term (the pattern it means, or its rejection,
  \<open>None\<close>) is the parameter \<open>rx\<close> of everything below.
\<close>

type_synonym engine = "string \<Rightarrow> (string \<Rightarrow> bool) option"

definition regex_meta :: "char list" where
  "regex_meta = CHR 0x5C # ''^$.|?*+()[]{}''"

definition literal_char :: "char \<Rightarrow> bool" where
  "literal_char c = ((of_char c :: nat) < 128 \<and> \<not> List.member regex_meta c)"

definition literal :: "string \<Rightarrow> bool" where
  "literal pat = list_all literal_char pat"

definition compile :: "engine \<Rightarrow> string \<Rightarrow> (string \<Rightarrow> bool) option" where
  "compile rx pat = (if literal pat then Some (ci_contains pat) else rx pat)"

text \<open>An engine that rejects every pattern it is asked about, to run the model on
  literal terms.\<close>

definition literal_only :: engine where
  "literal_only pat = None"

subsection \<open>Query objects\<close>

text \<open>
  A condition on one field: a plain value (equality), an object of comparison operators
  (the program uses \<open>$ne\<close>), or \<open>{ $regex: pat, $options: "i" }\<close>.
\<close>

datatype cond =
    Eq bval
  | Ops "(string \<times> bval) list"
  | RegexI string

datatype query =
    FieldIs string cond
  | OrQ "query list"
  | AndQ "query list"
  | Obj "query list"

text \<open>
  Equality with null also holds of an absent field; \<open>$ne\<close> is its negation, so it
  holds of an absent field unless the value is null. A regular expression only matches
  a field that holds a string.
\<close>

fun eq_holds :: "bval \<Rightarrow> bval option \<Rightarrow> bool" where
  "eq_holds x None = (x = Null)"
| "eq_holds x (Some y) = (y = x)"

definition op_holds :: "string \<Rightarrow> bval \<Rightarrow> bval option \<Rightarrow> bool" where
  "op_holds name x v =
     (if name = ''$ne'' then \<not> eq_holds x v
      else if name = ''$eq'' then eq_holds x v
      else False)"

fun regex_holds :: "engine \<Rightarrow> string \<Rightarrow> bval option \<Rightarrow> bool" where
  "regex_holds rx pat (Some (Str s)) =
     (case compile rx pat of None \<Rightarrow> False | Some m \<Rightarrow> m s)"
| "regex_holds rx pat v = False"

fun cond_holds :: "engine \<Rightarrow> cond \<Rightarrow> bval option \<Rightarrow> bool" where
  "cond_holds rx (Eq x) v = eq_holds x v"
| "cond_holds rx (Ops ops) v = list_all (\<lambda>(name, x). op_holds name x v) ops"
| "cond_holds rx (RegexI pat) v = regex_holds rx pat v"

fun matches :: "engine \<Rightarrow> query \<Rightarrow> doc \<Rightarrow> bool" where
  "matches rx (FieldIs f c) d = cond_holds rx c (map_of d f)"
| "matches rx (OrQ qs) d = list_ex (\<lambda>q. matches rx q d) qs"
| "matches rx (AndQ qs) d = list_all (\<lambda>q. matches rx q d) qs"
| "matches rx (Obj qs) d = list_all (\<lambda>q. matches rx q d) qs"

text \<open>The store refuses a query one of whose patterns it cannot compile.\<close>

fun query_ok :: "engine \<Rightarrow> query \<Rightarrow> bool" where
  "query_ok rx (FieldIs f (RegexI pat)) = (compile rx pat \<noteq> None)"
| "query_ok rx (FieldIs f c) = True"
| "query_ok rx (OrQ qs) = list_all (query_ok rx) qs"
| "query_ok rx (AndQ qs) = list_all (query_ok rx) qs"
| "query_ok rx (Obj qs) = list_all (query_ok rx) qs"

subsection \<open>Store operations\<close>

datatype store_error =
  BadPattern | NegativeSkip | BadUpdatePath | NotADocument | ImmutableField

text \<open>
  Sorting on one field, ascending (direction 1) or descending (direction -1) in the
  store's value order; an absent field sorts as null. The store leaves the order among
  equal keys open; the model keeps the incoming order.
\<close>

fun insort_by :: "('a \<Rightarrow> 'a \<Rightarrow> bool) \<Rightarrow> 'a \<Rightarrow> 'a list \<Rightarrow> 'a list" where
  "insort_by le x [] = [x]"
| "insort_by le x (y # ys) = (if le x y then x # y # ys else y # insort_by le x ys)"

definition sort_by :: "('a \<Rightarrow> 'a \<Rightarrow> bool) \<Rightarrow> 'a list \<Rightarrow> 'a list" where
  "sort_by le xs = foldr (insort_by le) xs []"

definition doc_le :: "string \<Rightarrow> int \<Rightarrow> doc \<Rightarrow> doc \<Rightarrow> bool" where
  "doc_le f dir a b =
     (if dir < 0 then bson_le (fld b f) (fld a f) else bson_le (fld a f) (fld b f))"

definition sort_docs :: "string \<Rightarrow> int \<Rightarrow> doc list \<Rightarrow> doc list" where
  "sort_docs f dir ds = sort_by (doc_le f dir) ds"

definition project :: "string list \<Rightarrow> doc \<Rightarrow> doc" where
  "project fields d = filter (\<lambda>(k, v). k \<in> set fields) d"

text \<open>
  \<open>skip\<close> and \<open>limit\<close> of a find cursor: the store refuses a negative skip, a limit of
  0 means no limit, and the driver sends a negative limit as its absolute value.
\<close>

definition skip_limit :: "int \<Rightarrow> int \<Rightarrow> 'a list \<Rightarrow> store_error + 'a list" where
  "skip_limit skip limit xs =
     (if skip < 0 then Inl NegativeSkip
      else if limit = 0 then Inr (drop (nat skip) xs)
      else Inr (take (nat \<bar>limit\<bar>) (drop (nat skip) xs)))"

text \<open>
  \<open>collection.find(q).project(p).sort({f: 1}).skip(s).limit(l).toArray()\<close>: whatever
  the order of the calls, the cursor sorts the matching records, then skips and limits,
  then projects.
\<close>

definition find_cursor ::
  "engine \<Rightarrow> query \<Rightarrow> string list \<Rightarrow> string \<Rightarrow> int \<Rightarrow> int \<Rightarrow> doc list \<Rightarrow> store_error + doc list"
where
  "find_cursor rx q fields sort_field skip limit store =
     (if \<not> query_ok rx q then Inl BadPattern
      else
        (case skip_limit skip limit (sort_docs sort_field 1 (filter (matches rx q) store)) of
           Inl e \<Rightarrow> Inl e
         | Inr ds \<Rightarrow> Inr (map (project fields) ds)))"

text \<open>\<open>collection.findOne(q)\<close>\<close>

definition find_one :: "engine \<Rightarrow> query \<Rightarrow> doc list \<Rightarrow> store_error + doc option" where
  "find_one rx q store =
     (if \<not> query_ok rx q then Inl BadPattern
      else Inr (case filter (matches rx q) store of [] \<Rightarrow> None | d # ds \<Rightarrow> Some d))"

text \<open>
  Aggregation stages. \<open>GroupCount f\<close> is \<open>{ $group: { _id: "$f", count: { $sum: 1 } } }\<close>:
  one output document per distinct value of the field, an absent field counted under
  null; the model lists the groups in order of first occurrence.
\<close>

datatype stage =
    Match query
  | GroupCount string
  | Sort string int
  | Limit nat

fun add_to_groups :: "bval \<Rightarrow> (bval \<times> nat) list \<Rightarrow> (bval \<times> nat) list" where
  "add_to_groups k [] = [(k, 1)]"
| "add_to_groups k ((k', n) # gs) =
     (if k = k' then (k', Suc n) # gs else (k', n) # add_to_groups k gs)"

definition groups_of :: "string \<Rightarrow> doc list \<Rightarrow> (bval \<times> nat) list" where
  "groups_of f ds = fold (\<lambda>d gs. add_to_groups (fld d f) gs) ds []"

definition group_doc :: "bval \<times> nat \<Rightarrow> doc" where
  "group_doc g = [(''_id'', fst g), (''count'', Num (int (snd g)))]"

fun run_stage :: "engine \<Rightarrow> stage \<Rightarrow> doc list \<Rightarrow> doc list" where
  "run_stage rx (Match q) ds = filter (matches rx q) ds"
| "run_stage rx (GroupCount f) ds = map group_doc (groups_of f ds)"
| "run_stage rx (Sort f dir) ds = sort_docs f dir ds"
| "run_stage rx (Limit n) ds = take n ds"

definition aggregate :: "engine \<Rightarrow> stage list \<Rightarrow> doc list \<Rightarrow> doc list" where
  "aggregate rx stages store = fold (run_stage rx) stages store"

text \<open>
  \<open>updateOne(q, { $set: fields })\<close> on the first document that matches. A field name
  of the update is a path in dot notation: \<open>address.city\<close> names the field \<open>city\<close> of
  the embedded document \<open>address\<close>, which the store creates when the record has no
  such field and refuses to create inside a value that is not a document. The store
  refuses the whole update, whether or not a record matches, when a path has an empty
  part, a part that starts with \<open>$\<close> or a part with a NUL character in it, or when
  one path is the beginning of another.
  \<open>_id\<close> is immutable: an update that would change it is refused. The result carries
  \<open>matchedCount\<close>.
\<close>

fun split_dots :: "string \<Rightarrow> string list" where
  "split_dots [] = [[]]"
| "split_dots (c # cs) =
     (if c = CHR ''.'' then [] # split_dots cs
      else (case split_dots cs of [] \<Rightarrow> [[c]] | p # ps \<Rightarrow> (c # p) # ps))"

definition valid_part :: "string \<Rightarrow> bool" where
  "valid_part p = (case p of [] \<Rightarrow> False | c # cs \<Rightarrow> c \<noteq> CHR ''$'' \<and> CHR 0x00 \<notin> set p)"

fun no_conflicts :: "string list list \<Rightarrow> bool" where
  "no_conflicts [] = True"
| "no_conflicts (p # ps) =
     (list_all (\<lambda>q. \<not> starts_with p q \<and> \<not> starts_with q p) ps \<and> no_conflicts ps)"

definition valid_update :: "doc \<Rightarrow> bool" where
  "valid_update fields =
     (list_all (\<lambda>k. list_all valid_part (split_dots k)) (map fst fields) \<and>
      no_conflicts (map split_dots (map fst fields)))"

fun set_path :: "string list \<Rightarrow> bval \<Rightarrow> doc \<Rightarrow> store_error + doc" where
  "set_path [] v d = Inl BadUpdatePath"
| "set_path [k] v d = Inr (AList.update k v d)"
| "set_path (k # k' # ks) v d =
     (case map_of d k of
        None \<Rightarrow>
          (case set_path (k' # ks) v [] of
             Inl e \<Rightarrow> Inl e
           | Inr sub \<Rightarrow> Inr (AList.update k (Embedded sub) d))
      | Some (Embedded old) \<Rightarrow>
          (case set_path (k' # ks) v old of
             Inl e \<Rightarrow> Inl e
           | Inr sub \<Rightarrow> Inr (AList.update k (Embedded sub) d))
      | Some other \<Rightarrow> Inl NotADocument)"

fun set_fields :: "doc \<Rightarrow> doc \<Rightarrow> store_error + doc" where
  "set_fields [] d = Inr d"
| "set_fields ((k, v) # fields) d =
     (case set_path (split_dots k) v d of
        Inl e \<Rightarrow> Inl e
      | Inr d' \<Rightarrow> set_fields fields d')"

definition apply_set :: "doc \<Rightarrow> doc \<Rightarrow> store_error + doc" where
  "apply_set fields d =
     (case set_fields fields d of
        Inl e \<Rightarrow> Inl e
      | Inr d' \<Rightarrow> if map_of d' ''_id'' = map_of d ''_id'' then Inr d' else Inl ImmutableField)"

fun update_first :: "(doc \<Rightarrow> bool) \<Rightarrow> doc \<Rightarrow> doc list \<Rightarrow> store_error + nat \<times> doc list" where
  "update_first p fields [] = Inr (0, [])"
| "update_first p fields (d # ds) =
     (if p d then
        (case apply_set fields d of
           Inl e \<Rightarrow> Inl e
         | Inr d' \<Rightarrow> Inr (1, d' # ds))
      else
        (case update_first p fields ds of
           Inl e \<Rightarrow> Inl e
         | Inr (n, ds') \<Rightarrow> Inr (n, d # ds')))"

definition update_one ::
  "engine \<Rightarrow> query \<Rightarrow> doc \<Rightarrow> doc list \<Rightarrow> store_error + nat \<times> doc list"
where
  "update_one rx q fields store =
     (if \<not> query_ok rx q then Inl BadPattern
      else if \<not> valid_update fields then Inl BadUpdatePath
      else update_first (matches rx q) fields store)"

text \<open>
  \<open>new ObjectId(id)\<close> on a string: 24 hexadecimal digits, which stand for the same
  identifier in either letter case; any other string throws (\<open>None\<close>).
\<close>

definition is_hex :: "char \<Rightarrow> bool" where
  "is_hex c = (c \<in> set ''0123456789abcdefABCDEF'')"

definition object_id :: "string \<Rightarrow> bval option" where
  "object_id s =
     (if length s = 24 \<and> list_all is_hex s then Some (ObjId (map lower_char s)) else None)"

subsection \<open>Responses\<close>

datatype json =
    JV bval
  | JObj "(string \<times> json) list"
  | JArr "json list"

text \<open>A handler answers with a status and a JSON body (\<open>res.json\<close> alone is status
  200); a rejected promise outside any \<open>try\<close> is not answered by the handler.\<close>

datatype response = Response nat json | NoResponse

definition doc_json :: "doc \<Rightarrow> json" where
  "doc_json d = JObj (map (\<lambda>(k, v). (k, JV v)) d)"

definition message :: "string \<Rightarrow> json" where
  "message m = JObj [(''message'', JV (Str m))]"

definition internal_error :: response where
  "internal_error = Response 500 (message ''Internal server error'')"

subsection \<open>GET /members\<close>

text \<open>
  The parameters \<open>search\<close>, \<open>page\<close> and \<open>limit\<close> are optional; \<open>page\<close> and \<open>limit\<close>
  are given by the integers \<open>Number(page)\<close> and \<open>Number(limit)\<close>. The handler has no
  \<open>try\<close>: when the store refuses the query, the handler sends no answer.
\<close>

definition members_query :: "string \<Rightarrow> query" where
  "members_query search =
     Obj [OrQ
       [Obj [FieldIs ''First name'' (RegexI search)],
        Obj [FieldIs ''Last name'' (RegexI search)],
        Obj [FieldIs ''Spouse first name'' (RegexI search)],
        Obj [FieldIs ''Spouse last name'' (RegexI search)],
        Obj [FieldIs ''City'' (RegexI search)],
        Obj [FieldIs ''Chettinad native place'' (RegexI search)]]]"

definition list_view :: "string list" where
  "list_view =
     [''_id'', ''First name'', ''Last name'', ''Spouse first name'', ''Spouse last name'',
      ''City'', ''Chettinad native place'']"

definition members ::
  "engine \<Rightarrow> doc list \<Rightarrow> string option \<Rightarrow> int option \<Rightarrow> int option \<Rightarrow> response"
where
  "members rx store search_param page_param limit_param =
     (let search = (case search_param of None \<Rightarrow> [] | Some s \<Rightarrow> s);
          page = (case page_param of None \<Rightarrow> 1 | Some p \<Rightarrow> p);
          limit = (case limit_param of None \<Rightarrow> 20 | Some l \<Rightarrow> l);
          skip = (page - 1) * limit
      in case find_cursor rx (members_query search) list_view ''First name'' skip limit store of
           Inl e \<Rightarrow> NoResponse
         | Inr results \<Rightarrow> Response 200 (JArr (map doc_json results)))"

subsection \<open>GET /stats/... and GET /analytics\<close>

text \<open>
  Every pipeline starts with \<open>{ $match: { F: { $ne: null, $ne: "" } } }\<close>; the
  operator object is written here as the source writes it.
\<close>

definition ne_null_ne_empty :: cond where
  "ne_null_ne_empty = Ops (js_object [(''$ne'', Null), (''$ne'', Str [])])"

definition by_count :: "string \<Rightarrow> stage list" where
  "by_count f =
     [Match (Obj [FieldIs f ne_null_ne_empty]), GroupCount f, Sort ''count'' (- 1)]"

definition top_by_count :: "string \<Rightarrow> stage list" where
  "top_by_count f =
     [Match (Obj [FieldIs f ne_null_ne_empty]), GroupCount f, Sort ''count'' (- 1), Limit 10]"

definition by_year :: "stage list" where
  "by_year =
     [Match (Obj [FieldIs ''YearSince'' ne_null_ne_empty]), GroupCount ''YearSince'',
      Sort ''_id'' 1]"

definition stats_native_village :: "engine \<Rightarrow> doc list \<Rightarrow> response" where
  "stats_native_village rx store =
     Response 200 (JArr (map doc_json (aggregate rx (by_count ''Chettinad native place'') store)))"

definition stats_city :: "engine \<Rightarrow> doc list \<Rightarrow> response" where
  "stats_city rx store = Response 200 (JArr (map doc_json (aggregate rx (by_count ''City'') store)))"

definition stats_kovil :: "engine \<Rightarrow> doc list \<Rightarrow> response" where
  "stats_kovil rx store = Response 200 (JArr (map doc_json (aggregate rx (by_count ''Kovil'') store)))"

definition stats_year :: "engine \<Rightarrow> doc list \<Rightarrow> response" where
  "stats_year rx store = Response 200 (JArr (map doc_json (aggregate rx by_year store)))"

text \<open>
  The reshaping of /analytics: \<open>{ name: item._id, count: item.count }\<close>, and for the
  years \<open>{ name: item._id.toString(), count: item.count }\<close>, which throws on a null
  key; the handler's \<open>catch\<close> then answers 500.
\<close>

definition reshape :: "doc \<Rightarrow> json" where
  "reshape item = JObj [(''name'', JV (fld item ''_id'')), (''count'', JV (fld item ''count''))]"

definition reshape_year :: "(int \<Rightarrow> string) \<Rightarrow> doc \<Rightarrow> json option" where
  "reshape_year date_text item =
     (case to_string date_text (fld item ''_id'') of
        None \<Rightarrow> None
      | Some s \<Rightarrow> Some (JObj [(''name'', JV (Str s)), (''count'', JV (fld item ''count''))]))"

fun map_all :: "('a \<Rightarrow> 'b option) \<Rightarrow> 'a list \<Rightarrow> 'b list option" where
  "map_all f [] = Some []"
| "map_all f (x # xs) =
     (case f x of
        None \<Rightarrow> None
      | Some y \<Rightarrow> (case map_all f xs of None \<Rightarrow> None | Some ys \<Rightarrow> Some (y # ys)))"

definition analytics :: "engine \<Rightarrow> (int \<Rightarrow> string) \<Rightarrow> doc list \<Rightarrow> response" where
  "analytics rx date_text store =
     (let nativeVillageStats = aggregate rx (top_by_count ''Chettinad native place'') store;
          cityResidenceStats = aggregate rx (top_by_count ''City'') store;
          nagaraKovilStats = aggregate rx (top_by_count ''Kovil'') store;
          yearMovedStats = aggregate rx by_year store
      in case map_all (reshape_year date_text) yearMovedStats of
           None \<Rightarrow> internal_error
         | Some yearMoved \<Rightarrow>
             Response 200
               (JObj
                 [(''nativeVillage'', JArr (map reshape nativeVillageStats)),
                  (''cityResidence'', JArr (map reshape cityResidenceStats)),
                  (''nagaraKovil'', JArr (map reshape nagaraKovilStats)),
                  (''yearMoved'', JArr yearMoved)]))"

subsection \<open>PUT /members/:id\<close>

text \<open>
  The handler takes the clock's reading \<open>now\<close> and the members of the JSON object of
  the request body in the order they are written (parsing keeps the last of two members
  of one name), and returns its answer together with the collection as the request
  leaves it. Everything from the destructuring of the body to the answer is inside
  \<open>try\<close>: whatever throws is answered with 500.
\<close>

definition put_member ::
  "engine \<Rightarrow> int \<Rightarrow> doc list \<Rightarrow> string \<Rightarrow> doc \<Rightarrow> response \<times> doc list"
where
  "put_member rx now store id_param body =
     (let updateData = js_object body;
          fieldsToUpdate =
            AList.update ''UserUpdated'' (Date now) (AList.delete ''_id'' updateData)
      in case object_id id_param of
           None \<Rightarrow> (internal_error, store)
         | Some oid \<Rightarrow>
             (case update_one rx (Obj [FieldIs ''_id'' (Eq oid)]) fieldsToUpdate store of
                Inl e \<Rightarrow> (internal_error, store)
              | Inr (matchedCount, store') \<Rightarrow>
                  if matchedCount = 0 then (Response 404 (message ''Member not found''), store')
                  else
                    (case find_one rx (Obj [FieldIs ''_id'' (Eq oid)]) store' of
                       Inl e \<Rightarrow> (internal_error, store')
                     | Inr updatedMember \<Rightarrow>
                         (Response 200
                            (JObj
                              [(''message'', JV (Str ''Profile updated successfully'')),
                               (''member'',
                                  (case updatedMember of
                                     None \<Rightarrow> JV Null
                                   | Some m \<Rightarrow> doc_json m))]),
                          store'))))"

subsection \<open>GET /members/by-category\<close>

text \<open>
  The handler's answer, paired with the queries it sent to the store, in order.
  \<open>!category\<close> holds of an absent parameter and of the empty string.
\<close>

definition category_field :: "string \<Rightarrow> string option" where
  "category_field category =
     (if category = ''nativeVillage'' then Some ''Chettinad native place''
      else if category = ''cityResidence'' then Some ''City''
      else if category = ''nagaraKovil'' then Some ''Kovil''
      else if category = ''yearMoved'' then Some ''YearSince''
      else None)"

definition name_filter :: "string \<Rightarrow> query" where
  "name_filter search =
     Obj [OrQ
       [Obj [FieldIs ''First name'' (RegexI search)],
        Obj [FieldIs ''Last name'' (RegexI search)],
        Obj [FieldIs ''Spouse first name'' (RegexI search)],
        Obj [FieldIs ''Spouse last name'' (RegexI search)]]]"

definition category_view :: "string list" where
  "category_view =
     [''_id'', ''First name'', ''Last name'', ''Spouse first name'', ''Spouse last name'',
      ''City'', ''Chettinad native place'', ''Kovil'', ''YearSince'', ''Email'',
      ''Spouse email id'', ''Mobile number'', ''Spouse mobile number'']"

definition falsy :: "string option \<Rightarrow> bool" where
  "falsy p = (case p of None \<Rightarrow> True | Some s \<Rightarrow> s = [])"

definition category_query :: "string \<Rightarrow> string \<Rightarrow> string \<Rightarrow> query" where
  "category_query f v search =
     (let query = [FieldIs f (Eq (Str v))]
      in if search \<noteq> [] \<and> js_trim search \<noteq> []
         then Obj (query @ [AndQ [Obj query, name_filter search]])
         else Obj query)"

definition by_category ::
  "engine \<Rightarrow> doc list \<Rightarrow> string option \<Rightarrow> string option \<Rightarrow> string option
     \<Rightarrow> response \<times> query list"
where
  "by_category rx store category_param value_param search_param =
     (let search = (case search_param of None \<Rightarrow> [] | Some s \<Rightarrow> s)
      in if falsy category_param \<or> falsy value_param
         then (Response 400 (message ''Category and value are required parameters''), [])
         else
           (case category_field (case category_param of None \<Rightarrow> [] | Some c \<Rightarrow> c) of
              None \<Rightarrow>
                (Response 400
                   (message
                      ''Invalid category. Valid categories: nativeVillage, cityResidence, nagaraKovil, yearMoved''),
                 [])
            | Some f \<Rightarrow>
                (let query =
                       category_query f (case value_param of None \<Rightarrow> [] | Some v \<Rightarrow> v) search
                 in (case find_cursor rx query category_view ''First name'' 0 0 store of
                       Inl e \<Rightarrow> internal_error
                     | Inr found \<Rightarrow> Response 200 (JArr (map doc_json found)),
                     [query]))))"

subsection \<open>Vocabulary of the properties\<close>

text \<open>The records that pass the \<open>$match\<close> stage of the pipelines on field \<open>f\<close>.\<close>

definition matched :: "engine \<Rightarrow> string \<Rightarrow> doc list \<Rightarrow> doc list" where
  "matched rx f store = filter (matches rx (Obj [FieldIs f ne_null_ne_empty])) store"

text \<open>The two shapes of a statistics entry: \<open>{ _id, count }\<close> and \<open>{ name, count }\<close>.\<close>

definition raw_entry :: "bval \<times> nat \<Rightarrow> json" where
  "raw_entry g = JObj [(''_id'', JV (fst g)), (''count'', JV (Num (int (snd g))))]"

definition named_entry :: "bval \<times> nat \<Rightarrow> json" where
  "named_entry g = JObj [(''name'', JV (fst g)), (''count'', JV (Num (int (snd g))))]"

text \<open>
  The groups of the aggregation on field \<open>f\<close>: one pair for each distinct value among
  the records that pass the \<open>$match\<close> stage, with the number of those records.
\<close>

definition groups :: "engine \<Rightarrow> string \<Rightarrow> doc list \<Rightarrow> (bval \<times> nat) list" where
  "groups rx f store = groups_of f (matched rx f store)"

text \<open>
  The groups as the specification words them: one pair for each distinct non-empty
  value of field \<open>f\<close> (a value that is neither null or absent nor the empty string),
  with the number of records that hold it.
\<close>

definition nonempty_groups :: "string \<Rightarrow> doc list \<Rightarrow> (bval \<times> nat) list" where
  "nonempty_groups f store =
     groups_of f (filter (\<lambda>d. fld d f \<noteq> Null \<and> fld d f \<noteq> Str []) store)"

text \<open>The entry of the year sequence of /analytics, whose name is the key's text.\<close>

definition key_text :: "(int \<Rightarrow> string) \<Rightarrow> bval \<Rightarrow> string" where
  "key_text date_text k = (case to_string date_text k of None \<Rightarrow> [] | Some s \<Rightarrow> s)"

definition year_entry :: "(int \<Rightarrow> string) \<Rightarrow> bval \<times> nat \<Rightarrow> json" where
  "year_entry date_text g =
     JObj [(''name'', JV (Str (key_text date_text (fst g)))), (''count'', JV (Num (int (snd g))))]"

text \<open>The two orders of the statistics: descending by count, ascending by key.\<close>

definition by_count_desc :: "bval \<times> nat \<Rightarrow> bval \<times> nat \<Rightarrow> bool" where
  "by_count_desc a b = (snd b \<le> snd a)"

definition by_key_asc :: "bval \<times> nat \<Rightarrow> bval \<times> nat \<Rightarrow> bool" where
  "by_key_asc a b = bson_le (fst a) (fst b)"

text \<open>
  \<open>vs\<close> is a choice of the \<open>n\<close> highest-count groups among \<open>gs\<close>: it has \<open>n\<close> entries
  (all of them when there are fewer), each is a group, and no group left out has a
  higher count than one that is in.
\<close>

definition top_groups :: "nat \<Rightarrow> (bval \<times> nat) list \<Rightarrow> (bval \<times> nat) list \<Rightarrow> bool" where
  "top_groups n gs vs =
     (length vs = min n (length gs) \<and> set vs \<subseteq> set gs \<and>
      (\<forall>g \<in> set gs - set vs. \<forall>v \<in> set vs. snd g \<le> snd v))"

text \<open>A collection of twelve members from eleven native villages, as an example.\<close>

definition member_doc ::
  "string \<Rightarrow> string \<Rightarrow> string \<Rightarrow> string \<Rightarrow> string \<Rightarrow> int \<Rightarrow> doc"
where
  "member_doc ident first city village kovil year =
     [(''_id'', ObjId ident), (''First name'', Str first), (''City'', Str city),
      (''Chettinad native place'', Str village), (''Kovil'', Str kovil), (''YearSince'', Num year)]"

definition sample_members :: "doc list" where
  "sample_members =
     [member_doc ''650000000000000000000001'' ''Meena'' ''Chennai'' ''Karaikudi'' ''Mathur'' 2005,
      member_doc ''650000000000000000000002'' ''Anna'' ''Madurai'' ''Devakottai'' ''Vairavan'' 1999,
      member_doc ''650000000000000000000003'' ''Kumar'' ''Chennai'' ''Pallathur'' ''Mathur'' 2010,
      member_doc ''650000000000000000000004'' ''Valli'' ''Trichy'' ''Kanadukathan'' ''Iraniyur'' 2005,
      member_doc ''650000000000000000000005'' ''Bala'' ''Salem'' ''Kothamangalam'' ''Pillaiyarpatti'' 1987,
      member_doc ''650000000000000000000006'' ''Lakshmi'' ''Erode'' ''Kandanur'' ''Ilayathakudi'' 2001,
      member_doc ''650000000000000000000007'' ''Ramu'' ''Karur'' ''Puduvayal'' ''Nemam'' 2015,
      member_doc ''650000000000000000000008'' ''Sita'' ''Ooty'' ''Athangudi'' ''Soorakudi'' 1995,
      member_doc ''650000000000000000000009'' ''Mani'' ''Vellore'' ''Kottaiyur'' ''Velangudi'' 2020,
      member_doc ''65000000000000000000000a'' ''Devi'' ''Tirupur'' ''Nattarasankottai'' ''Mathur'' 2003,
      member_doc ''65000000000000000000000b'' ''Arun'' ''Hosur'' ''Rayavaram'' ''Nemam'' 2007,
      member_doc ''65000000000000000000000c'' ''Uma'' ''Chennai'' ''Karaikudi'' ''Mathur'' 2005]"

text \<open>The same collection with three more members who have a first name and a year only.\<close>

definition villageless :: "string \<Rightarrow> string \<Rightarrow> int \<Rightarrow> doc" where
  "villageless ident first year =
     [(''_id'', ObjId ident), (''First name'', Str first), (''YearSince'', Num year)]"

definition sample_with_blanks :: "doc list" where
  "sample_with_blanks =
     sample_members @
     [villageless ''65000000000000000000000d'' ''Raja'' 2011,
      villageless ''65000000000000000000000e'' ''Kavi'' 2012,
      villageless ''65000000000000000000000f'' ''Selvi'' 2013]"

text \<open>
  The fields the free-text search of /members looks at, and the name fields that the
  text search of /members/by-category looks at.
\<close>

definition search_fields :: "string list" where
  "search_fields =
     [''First name'', ''Last name'', ''Spouse first name'', ''Spouse last name'', ''City'',
      ''Chettinad native place'']"

definition name_fields :: "string list" where
  "name_fields = [''First name'', ''Last name'', ''Spouse first name'', ''Spouse last name'']"

text \<open>Field \<open>f\<close> of the record holds a string, and one that \<open>m\<close> accepts.\<close>

definition holds_text :: "doc \<Rightarrow> string \<Rightarrow> bool" where
  "holds_text d f = (case map_of d f of Some (Str s) \<Rightarrow> True | _ \<Rightarrow> False)"

definition text_matches :: "(string \<Rightarrow> bool) \<Rightarrow> doc \<Rightarrow> string \<Rightarrow> bool" where
  "text_matches m d f = (case map_of d f of Some (Str s) \<Rightarrow> m s | _ \<Rightarrow> False)"

text \<open>
  The full result of a member search before skip and limit: the matching records in
  ascending order of first name, in the list view.
\<close>

definition listing :: "engine \<Rightarrow> string \<Rightarrow> doc list \<Rightarrow> doc list" where
  "listing rx search store =
     map (project list_view)
       (sort_docs ''First name'' 1 (filter (matches rx (members_query search)) store))"

definition by_first_name :: "doc \<Rightarrow> doc \<Rightarrow> bool" where
  "by_first_name a b = bson_le (fld a ''First name'') (fld b ''First name'')"

text \<open>
  The object that PUT /members/:id hands to \<open>$set\<close>; the value a record holds at a
  path in dot notation; the top-level field a path starts with; and a name that is a
  top-level field name (not empty, no \<open>$\<close> in front, no dot, no NUL character).
\<close>

definition fields_to_update :: "int \<Rightarrow> doc \<Rightarrow> doc" where
  "fields_to_update now body =
     AList.update ''UserUpdated'' (Date now) (AList.delete ''_id'' (js_object body))"

fun get_path :: "string list \<Rightarrow> doc \<Rightarrow> bval option" where
  "get_path [] d = None"
| "get_path [k] d = map_of d k"
| "get_path (k # k' # ks) d =
     (case map_of d k of Some (Embedded sub) \<Rightarrow> get_path (k' # ks) sub | _ \<Rightarrow> None)"




section \<open>Properties\<close>

subsection \<open>Sorting\<close>

lemma set_insort_by: "set (insort_by le x xs) = insert x (set xs)"
  by (induction xs) auto

lemma set_sort_by: "set (sort_by le xs) = set xs"
  unfolding sort_by_def by (induction xs) (auto simp: set_insort_by)

lemma length_insort_by: "length (insort_by le x xs) = Suc (length xs)"
  by (induction xs) auto

lemma length_sort_by: "length (sort_by le xs) = length xs"
  unfolding sort_by_def by (induction xs) (auto simp: length_insort_by)

lemma sorted_insort_by:
  assumes total: "\<And>a b. le a b \<or> le b a"
    and trans: "\<And>a b c. le a b \<Longrightarrow> le b c \<Longrightarrow> le a c"
    and srt: "sorted_wrt le xs"
  shows "sorted_wrt le (insort_by le x xs)"
  using srt
proof (induction xs)
  case Nil
  then show ?case by simp
next
  case (Cons y ys)
  show ?case
  proof (cases "le x y")
    case True
    have "le x z" if "z \<in> set ys" for z
      using Cons.prems that True trans by auto
    with True Cons.prems show ?thesis by auto
  next
    case False
    then have "le y x" using total by blast
    with False Cons show ?thesis by (auto simp: set_insort_by)
  qed
qed

lemma sorted_sort_by:
  assumes total: "\<And>a b. le a b \<or> le b a"
    and trans: "\<And>a b c. le a b \<Longrightarrow> le b c \<Longrightarrow> le a c"
  shows "sorted_wrt le (sort_by le xs)"
  unfolding sort_by_def
proof (induction xs)
  case Nil
  show ?case by simp
next
  case (Cons x xs)
  show ?case using sorted_insort_by [of le, OF total trans Cons.IH] by simp
qed

lemma insort_by_map:
  "insort_by le (f x) (map f xs) = map f (insort_by (\<lambda>a b. le (f a) (f b)) x xs)"
  by (induction xs) auto

lemma sort_by_map: "sort_by le (map f xs) = map f (sort_by (\<lambda>a b. le (f a) (f b)) xs)"
  unfolding sort_by_def by (induction xs) (auto simp: insort_by_map)

lemma bson_le_total: "bson_le a b \<or> bson_le b a"
  unfolding bson_le_def by (rule linear)

lemma bson_le_trans: "bson_le a b \<Longrightarrow> bson_le b c \<Longrightarrow> bson_le a c"
  unfolding bson_le_def by (rule order_trans)

lemma bson_le_Num [simp]: "bson_le (Num a) (Num b) = (a \<le> b)"
  unfolding bson_le_def by auto

subsection \<open>Grouping\<close>

lemma add_to_groups_keys:
  "map fst (add_to_groups k gs) = (if k \<in> fst ` set gs then map fst gs else map fst gs @ [k])"
  by (induction gs) force+

lemma add_to_groups_sum: "sum_list (map snd (add_to_groups k gs)) = Suc (sum_list (map snd gs))"
  by (induction gs) auto

lemma add_to_groups_lookup:
  "map_of (add_to_groups k gs) =
     (map_of gs)(k \<mapsto> (case map_of gs k of None \<Rightarrow> 1 | Some n \<Rightarrow> Suc n))"
  by (induction gs) (auto simp: fun_eq_iff)

lemma add_to_groups_distinct:
  "distinct (map fst gs) \<Longrightarrow> distinct (map fst (add_to_groups k gs))"
  by (simp add: add_to_groups_keys)

lemma add_to_groups_key_set:
  "fst ` set (add_to_groups k gs) = insert k (fst ` set gs)"
proof -
  have "set (map fst (add_to_groups k gs)) = insert k (set (map fst gs))"
    by (subst add_to_groups_keys) auto
  then show ?thesis by simp
qed

lemma fold_groups_distinct:
  "distinct (map fst gs) \<Longrightarrow>
   distinct (map fst (fold (\<lambda>d gs. add_to_groups (fld d f) gs) ds gs))"
  by (induction ds arbitrary: gs) (auto simp: add_to_groups_distinct)

lemma fold_groups_keys:
  "fst ` set (fold (\<lambda>d gs. add_to_groups (fld d f) gs) ds gs) =
     fst ` set gs \<union> (\<lambda>d. fld d f) ` set ds"
  by (induction ds arbitrary: gs) (auto simp: add_to_groups_key_set)

lemma fold_groups_sum:
  "sum_list (map snd (fold (\<lambda>d gs. add_to_groups (fld d f) gs) ds gs)) =
     sum_list (map snd gs) + length ds"
  by (induction ds arbitrary: gs) (auto simp: add_to_groups_sum)

lemma fold_groups_lookup:
  "distinct (map fst gs) \<Longrightarrow>
   map_of (fold (\<lambda>d gs. add_to_groups (fld d f) gs) ds gs) k =
     (let n = length (filter (\<lambda>d. fld d f = k) ds)
      in case map_of gs k of None \<Rightarrow> (if n = 0 then None else Some n) | Some m \<Rightarrow> Some (m + n))"
proof (induction ds arbitrary: gs)
  case Nil
  then show ?case by (simp split: option.splits)
next
  case (Cons d ds)
  then show ?case
    by (simp add: add_to_groups_distinct add_to_groups_lookup Let_def split: option.splits)
qed

lemma groups_of_distinct: "distinct (map fst (groups_of f ds))"
  unfolding groups_of_def by (rule fold_groups_distinct) simp

lemma groups_of_keys: "fst ` set (groups_of f ds) = (\<lambda>d. fld d f) ` set ds"
  unfolding groups_of_def by (simp add: fold_groups_keys)

lemma groups_of_sum: "sum_list (map snd (groups_of f ds)) = length ds"
  unfolding groups_of_def by (simp add: fold_groups_sum)

lemma groups_of_count:
  "(k, n) \<in> set (groups_of f ds) \<longleftrightarrow> n = length (filter (\<lambda>d. fld d f = k) ds) \<and> 0 < n"
proof -
  have "(k, n) \<in> set (groups_of f ds) \<longleftrightarrow> map_of (groups_of f ds) k = Some n"
    using groups_of_distinct by (simp add: map_of_eq_Some_iff)
  also have "\<dots> \<longleftrightarrow> n = length (filter (\<lambda>d. fld d f = k) ds) \<and> 0 < n"
    unfolding groups_of_def by (subst fold_groups_lookup) (auto simp: Let_def)
  finally show ?thesis .
qed

subsection \<open>The aggregation pipelines\<close>

text \<open>
  The duplicated \<open>$ne\<close> leaves one condition: the \<open>$match\<close> stage lets through every
  record whose field is not the empty string, an absent or null field included.
\<close>

lemma ne_null_ne_empty_eq: "ne_null_ne_empty = Ops [(''$ne'', Str [])]"
  by (simp add: ne_null_ne_empty_def js_object_def)

lemma match_stage_iff:
  "matches rx (Obj [FieldIs f ne_null_ne_empty]) d \<longleftrightarrow> map_of d f \<noteq> Some (Str [])"
  by (cases "map_of d f") (auto simp: ne_null_ne_empty_eq op_holds_def)

lemma match_stage_fun:
  "matches rx (Obj [FieldIs f ne_null_ne_empty]) = (\<lambda>d. map_of d f \<noteq> Some (Str []))"
  by (rule ext) (rule match_stage_iff)

lemma fld_group_doc [simp]:
  "fld (group_doc g) ''_id'' = fst g" "fld (group_doc g) ''count'' = Num (int (snd g))"
  by (simp_all add: fld_def group_doc_def)

lemma sort_count_groups:
  "sort_docs ''count'' (- 1) (map group_doc gs) =
     map group_doc (sort_by (\<lambda>a b. snd b \<le> snd a) gs)"
  by (simp add: sort_docs_def sort_by_map doc_le_def)

lemma sort_id_groups:
  "sort_docs ''_id'' 1 (map group_doc gs) =
     map group_doc (sort_by (\<lambda>a b. bson_le (fst a) (fst b)) gs)"
  by (simp add: sort_docs_def sort_by_map doc_le_def)

lemma aggregate_by_count:
  "aggregate rx (by_count f) store =
     map group_doc (sort_by (\<lambda>a b. snd b \<le> snd a) (groups_of f (matched rx f store)))"
  by (simp add: aggregate_def by_count_def sort_count_groups matched_def)

lemma aggregate_top_by_count:
  "aggregate rx (top_by_count f) store =
     map group_doc
       (take 10 (sort_by (\<lambda>a b. snd b \<le> snd a) (groups_of f (matched rx f store))))"
  by (simp add: aggregate_def top_by_count_def sort_count_groups matched_def take_map)

lemma aggregate_by_year:
  "aggregate rx by_year store =
     map group_doc
       (sort_by (\<lambda>a b. bson_le (fst a) (fst b))
          (groups_of ''YearSince'' (matched rx ''YearSince'' store)))"
  by (simp add: aggregate_def by_year_def sort_id_groups matched_def)

lemma doc_json_group_doc: "doc_json (group_doc g) = raw_entry g"
  by (simp add: doc_json_def group_doc_def raw_entry_def)

lemma reshape_group_doc: "reshape (group_doc g) = named_entry g"
  by (simp add: reshape_def named_entry_def)

text \<open>
  C1. Every aggregation is to leave out the records whose value for the grouped field
  is null or the empty string, so that the group counts add up to the number of records
  with a non-empty value. On a collection whose only record has a null native village
  the handler of /stats/native-village answers with one group, keyed null, of count 1:
  the record is counted, where the property asks for no group at all.
\<close>

theorem native_village_null_record_is_grouped:
  "stats_native_village literal_only
     [[(''_id'', ObjId ''650000000000000000000001''), (''First name'', Str ''Anna''),
       (''Chettinad native place'', Null)]] =
   Response 200 (JArr [JObj [(''_id'', JV Null), (''count'', JV (Num 1))]])"
  by code_simp

text \<open>
  C5. A request to /members/by-category whose category is none of nativeVillage,
  cityResidence, nagaraKovil and yearMoved (an absent category included) is answered
  with status 400 and a message that says what is wrong, and no query is sent to the
  store.
\<close>

theorem unknown_category_rejected:
  assumes "category_param \<notin>
     {Some ''nativeVillage'', Some ''cityResidence'', Some ''nagaraKovil'', Some ''yearMoved''}"
  shows "by_category rx store category_param value_param search_param =
           (if falsy category_param \<or> falsy value_param
            then (Response 400 (message ''Category and value are required parameters''), [])
            else (Response 400
                    (message
                       ''Invalid category. Valid categories: nativeVillage, cityResidence, nagaraKovil, yearMoved''),
                  []))"
proof (cases category_param)
  case None
  then show ?thesis by (simp add: by_category_def falsy_def)
next
  case (Some c)
  with assms have "category_field c = None" by (simp add: category_field_def)
  with Some show ?thesis by (simp add: by_category_def Let_def)
qed

theorem unknown_category_rejected_witness:
  "by_category literal_only
     [[(''_id'', ObjId ''650000000000000000000001''), (''City'', Str ''Chennai'')]]
     (Some ''foo'') (Some ''Chennai'') None =
   (Response 400
      (message
         ''Invalid category. Valid categories: nativeVillage, cityResidence, nagaraKovil, yearMoved''),
    [])"
  using unknown_category_rejected [of "Some ''foo''" literal_only
      "[[(''_id'', ObjId ''650000000000000000000001''), (''City'', Str ''Chennai'')]]"
      "Some ''Chennai''" None]
  by (simp add: falsy_def)

subsection \<open>The statistics handlers\<close>

lemma stats_by_count:
  "Response 200 (JArr (map doc_json (aggregate rx (by_count f) store))) =
   Response 200 (JArr (map raw_entry (sort_by (\<lambda>a b. snd b \<le> snd a) (groups rx f store))))"
  by (simp add: aggregate_by_count doc_json_group_doc groups_def comp_def)

lemma stats_year_eq:
  "stats_year rx store =
   Response 200
     (JArr (map raw_entry
        (sort_by (\<lambda>a b. bson_le (fst a) (fst b)) (groups rx ''YearSince'' store))))"
  by (simp add: stats_year_def aggregate_by_year doc_json_group_doc groups_def comp_def)

lemma sorted_by_count_desc: "sorted_wrt by_count_desc (sort_by (\<lambda>a b. snd b \<le> snd a) gs)"
proof -
  have "sorted_wrt (\<lambda>a b. snd b \<le> snd a) (sort_by (\<lambda>a b. snd b \<le> snd a) gs)"
    by (rule sorted_sort_by) auto
  then show ?thesis by (simp add: by_count_desc_def [abs_def])
qed

lemma sorted_by_key_asc:
  "sorted_wrt by_key_asc (sort_by (\<lambda>a b. bson_le (fst a) (fst b)) gs)"
proof -
  have "sorted_wrt (\<lambda>a b. bson_le (fst a) (fst b)) (sort_by (\<lambda>a b. bson_le (fst a) (fst b)) gs)"
    by (rule sorted_sort_by) (auto intro: bson_le_trans simp: bson_le_total)
  then show ?thesis by (simp add: by_key_asc_def [abs_def])
qed

lemma sorted_wrt_take: "sorted_wrt P xs \<Longrightarrow> sorted_wrt P (take n xs)"
  by (metis append_take_drop_id sorted_wrt_append)

lemma reshape_year_group_doc:
  "reshape_year date_text (group_doc g) =
     (if fst g = Null then None else Some (year_entry date_text g))"
  by (cases "fst g") (simp_all add: reshape_year_def year_entry_def key_text_def)

lemma map_all_year:
  "map_all (reshape_year date_text) (map group_doc ys) =
     (if list_all (\<lambda>g. fst g \<noteq> Null) ys then Some (map (year_entry date_text) ys) else None)"
  by (induction ys) (simp_all add: reshape_year_group_doc)

text \<open>Taking the first \<open>n\<close> of a list sorted by descending count chooses top groups.\<close>

lemma top_groups_take:
  assumes "sorted_wrt (\<lambda>a b. snd b \<le> snd a) xs"
    and same: "set xs = set gs" "length xs = length gs"
  shows "top_groups n gs (take n xs)"
proof -
  have "sorted_wrt (\<lambda>a b. snd b \<le> snd a) (take n xs @ drop n xs)"
    using assms by simp
  then have ord: "\<forall>v \<in> set (take n xs). \<forall>g \<in> set (drop n xs). snd g \<le> snd v"
    unfolding sorted_wrt_append by blast
  have "set xs = set (take n xs) \<union> set (drop n xs)"
    by (metis append_take_drop_id set_append)
  then have "set gs - set (take n xs) \<subseteq> set (drop n xs)"
    using same by auto
  with ord have "\<forall>g \<in> set gs - set (take n xs). \<forall>v \<in> set (take n xs). snd g \<le> snd v"
    by blast
  moreover have "set (take n xs) \<subseteq> set gs"
    using same set_take_subset by fastforce
  ultimately show ?thesis
    using same by (simp add: top_groups_def)
qed

text \<open>What /analytics answers, in full.\<close>

lemma analytics_eq:
  "analytics rx date_text store =
    (if list_all (\<lambda>g. fst g \<noteq> Null) (groups rx ''YearSince'' store) then
       Response 200
         (JObj
           [(''nativeVillage'',
               JArr (map named_entry
                 (take 10 (sort_by (\<lambda>a b. snd b \<le> snd a)
                    (groups rx ''Chettinad native place'' store))))),
            (''cityResidence'',
               JArr (map named_entry
                 (take 10 (sort_by (\<lambda>a b. snd b \<le> snd a) (groups rx ''City'' store))))),
            (''nagaraKovil'',
               JArr (map named_entry
                 (take 10 (sort_by (\<lambda>a b. snd b \<le> snd a) (groups rx ''Kovil'' store))))),
            (''yearMoved'',
               JArr (map (year_entry date_text)
                 (sort_by (\<lambda>a b. bson_le (fst a) (fst b)) (groups rx ''YearSince'' store))))])
     else internal_error)"
proof -
  have all: "list_all P (sort_by le xs) = list_all P xs"
    for P and le :: "bval \<times> nat \<Rightarrow> bval \<times> nat \<Rightarrow> bool" and xs
    by (simp add: list_all_iff set_sort_by)
  show ?thesis
    by (simp add: analytics_def aggregate_top_by_count aggregate_by_year map_all_year all
        groups_def reshape_group_doc comp_def)
qed

lemma internal_error_neq [simp]: "Response 200 b \<noteq> internal_error"
  by (simp add: internal_error_def)

text \<open>/analytics answers 500 exactly when some record has no year or a null year.\<close>

lemma analytics_answers_iff:
  "analytics rx date_text store \<noteq> internal_error \<longleftrightarrow>
     list_all (\<lambda>d. fld d ''YearSince'' \<noteq> Null) store"
proof -
  have "list_all (\<lambda>g. fst g \<noteq> Null) (groups rx ''YearSince'' store) \<longleftrightarrow>
        Null \<notin> fst ` set (groups rx ''YearSince'' store)"
    by (force simp: list_all_iff)
  also have "\<dots> \<longleftrightarrow> Null \<notin> (\<lambda>d. fld d ''YearSince'') ` set (matched rx ''YearSince'' store)"
    by (simp add: groups_def groups_of_keys)
  also have "\<dots> \<longleftrightarrow> list_all (\<lambda>d. fld d ''YearSince'' \<noteq> Null) store"
  proof -
    have "fld d ''YearSince'' = Null \<Longrightarrow> map_of d ''YearSince'' \<noteq> Some (Str [])" for d
      by (auto simp: fld_def)
    then show ?thesis
      by (auto simp: matched_def match_stage_fun list_all_iff image_iff)
  qed
  finally show ?thesis by (simp add: analytics_eq)
qed

text \<open>
  C4 (as amended). The four single-field statistics handlers answer with the ordered
  sequence of the groups as the aggregation yields them, each a pair of the fields
  \<open>_id\<close> (the group key) and \<open>count\<close>; only the combined view /analytics reshapes its
  entries into pairs of the fields \<open>name\<close> and \<open>count\<close>.
\<close>

theorem stats_entry_shape:
  "stats_native_village rx store =
     Response 200 (JArr (map raw_entry
       (sort_by (\<lambda>a b. snd b \<le> snd a) (groups rx ''Chettinad native place'' store)))) \<and>
   stats_city rx store =
     Response 200 (JArr (map raw_entry
       (sort_by (\<lambda>a b. snd b \<le> snd a) (groups rx ''City'' store)))) \<and>
   stats_kovil rx store =
     Response 200 (JArr (map raw_entry
       (sort_by (\<lambda>a b. snd b \<le> snd a) (groups rx ''Kovil'' store)))) \<and>
   stats_year rx store =
     Response 200 (JArr (map raw_entry
       (sort_by (\<lambda>a b. bson_le (fst a) (fst b)) (groups rx ''YearSince'' store)))) \<and>
   (analytics rx date_text store = internal_error \<or>
    analytics rx date_text store =
      Response 200
        (JObj
          [(''nativeVillage'',
              JArr (map named_entry
                (take 10 (sort_by (\<lambda>a b. snd b \<le> snd a)
                   (groups rx ''Chettinad native place'' store))))),
           (''cityResidence'',
              JArr (map named_entry
                (take 10 (sort_by (\<lambda>a b. snd b \<le> snd a) (groups rx ''City'' store))))),
           (''nagaraKovil'',
              JArr (map named_entry
                (take 10 (sort_by (\<lambda>a b. snd b \<le> snd a) (groups rx ''Kovil'' store))))),
           (''yearMoved'',
              JArr (map (year_entry date_text)
                (sort_by (\<lambda>a b. bson_le (fst a) (fst b)) (groups rx ''YearSince'' store))))]))"
proof (intro conjI)
  show "stats_native_village rx store =
     Response 200 (JArr (map raw_entry
       (sort_by (\<lambda>a b. snd b \<le> snd a) (groups rx ''Chettinad native place'' store))))"
    unfolding stats_native_village_def by (rule stats_by_count)
  show "stats_city rx store =
     Response 200 (JArr (map raw_entry
       (sort_by (\<lambda>a b. snd b \<le> snd a) (groups rx ''City'' store))))"
    unfolding stats_city_def by (rule stats_by_count)
  show "stats_kovil rx store =
     Response 200 (JArr (map raw_entry
       (sort_by (\<lambda>a b. snd b \<le> snd a) (groups rx ''Kovil'' store))))"
    unfolding stats_kovil_def by (rule stats_by_count)
  show "stats_year rx store =
     Response 200 (JArr (map raw_entry
       (sort_by (\<lambda>a b. bson_le (fst a) (fst b)) (groups rx ''YearSince'' store))))"
    by (rule stats_year_eq)
  show "analytics rx date_text store = internal_error \<or>
    analytics rx date_text store =
      Response 200
        (JObj
          [(''nativeVillage'',
              JArr (map named_entry
                (take 10 (sort_by (\<lambda>a b. snd b \<le> snd a)
                   (groups rx ''Chettinad native place'' store))))),
           (''cityResidence'',
              JArr (map named_entry
                (take 10 (sort_by (\<lambda>a b. snd b \<le> snd a) (groups rx ''City'' store))))),
           (''nagaraKovil'',
              JArr (map named_entry
                (take 10 (sort_by (\<lambda>a b. snd b \<le> snd a) (groups rx ''Kovil'' store))))),
           (''yearMoved'',
              JArr (map (year_entry date_text)
                (sort_by (\<lambda>a b. bson_le (fst a) (fst b)) (groups rx ''YearSince'' store))))])"
    by (subst (1 2) analytics_eq) simp
qed

text \<open>
  On a collection of one member from Karaikudi, /stats/native-village answers
  \<open>[{ _id: "Karaikudi", count: 1 }]\<close>, not \<open>[{ name: "Karaikudi", count: 1 }]\<close>.
\<close>

theorem stats_entry_shape_counterexample:
  "stats_native_village literal_only
     [[(''_id'', ObjId ''650000000000000000000001''), (''First name'', Str ''Meena''),
       (''Chettinad native place'', Str ''Karaikudi'')]] =
     Response 200 (JArr [JObj [(''_id'', JV (Str ''Karaikudi'')), (''count'', JV (Num 1))]]) \<and>
   stats_native_village literal_only
     [[(''_id'', ObjId ''650000000000000000000001''), (''First name'', Str ''Meena''),
       (''Chettinad native place'', Str ''Karaikudi'')]] \<noteq>
     Response 200 (JArr [JObj [(''name'', JV (Str ''Karaikudi'')), (''count'', JV (Num 1))]])"
  by code_simp

text \<open>
  C7. The year sequences (of /stats/year and of /analytics) are in ascending order of
  the group key, in the store's order of values; the village, city and temple sequences
  (of the three other /stats handlers and of /analytics) are in descending order of
  count.
\<close>

theorem aggregation_order:
  "(\<exists>gs. stats_year rx store = Response 200 (JArr (map raw_entry gs)) \<and>
      sorted_wrt by_key_asc gs) \<and>
   (\<exists>gs. stats_native_village rx store = Response 200 (JArr (map raw_entry gs)) \<and>
      sorted_wrt by_count_desc gs) \<and>
   (\<exists>gs. stats_city rx store = Response 200 (JArr (map raw_entry gs)) \<and>
      sorted_wrt by_count_desc gs) \<and>
   (\<exists>gs. stats_kovil rx store = Response 200 (JArr (map raw_entry gs)) \<and>
      sorted_wrt by_count_desc gs) \<and>
   (analytics rx date_text store = internal_error \<or>
    (\<exists>vs cs ks ys.
       analytics rx date_text store =
         Response 200
           (JObj
             [(''nativeVillage'', JArr (map named_entry vs)),
              (''cityResidence'', JArr (map named_entry cs)),
              (''nagaraKovil'', JArr (map named_entry ks)),
              (''yearMoved'', JArr (map (year_entry date_text) ys))]) \<and>
       sorted_wrt by_count_desc vs \<and> sorted_wrt by_count_desc cs \<and>
       sorted_wrt by_count_desc ks \<and> sorted_wrt by_key_asc ys))"
proof (intro conjI)
  show "\<exists>gs. stats_year rx store = Response 200 (JArr (map raw_entry gs)) \<and>
      sorted_wrt by_key_asc gs"
    using stats_year_eq sorted_by_key_asc by blast
  show "\<exists>gs. stats_native_village rx store = Response 200 (JArr (map raw_entry gs)) \<and>
      sorted_wrt by_count_desc gs"
    unfolding stats_native_village_def stats_by_count using sorted_by_count_desc by blast
  show "\<exists>gs. stats_city rx store = Response 200 (JArr (map raw_entry gs)) \<and>
      sorted_wrt by_count_desc gs"
    unfolding stats_city_def stats_by_count using sorted_by_count_desc by blast
  show "\<exists>gs. stats_kovil rx store = Response 200 (JArr (map raw_entry gs)) \<and>
      sorted_wrt by_count_desc gs"
    unfolding stats_kovil_def stats_by_count using sorted_by_count_desc by blast
  show "analytics rx date_text store = internal_error \<or>
    (\<exists>vs cs ks ys.
       analytics rx date_text store =
         Response 200
           (JObj
             [(''nativeVillage'', JArr (map named_entry vs)),
              (''cityResidence'', JArr (map named_entry cs)),
              (''nagaraKovil'', JArr (map named_entry ks)),
              (''yearMoved'', JArr (map (year_entry date_text) ys))]) \<and>
       sorted_wrt by_count_desc vs \<and> sorted_wrt by_count_desc cs \<and>
       sorted_wrt by_count_desc ks \<and> sorted_wrt by_key_asc ys)"
  proof (cases "list_all (\<lambda>g. fst g \<noteq> Null) (groups rx ''YearSince'' store)")
    case False
    then show ?thesis by (simp add: analytics_eq)
  next
    case True
    have "analytics rx date_text store =
         Response 200
           (JObj
             [(''nativeVillage'',
                 JArr (map named_entry
                   (take 10 (sort_by (\<lambda>a b. snd b \<le> snd a)
                      (groups rx ''Chettinad native place'' store))))),
              (''cityResidence'',
                 JArr (map named_entry
                   (take 10 (sort_by (\<lambda>a b. snd b \<le> snd a) (groups rx ''City'' store))))),
              (''nagaraKovil'',
                 JArr (map named_entry
                   (take 10 (sort_by (\<lambda>a b. snd b \<le> snd a) (groups rx ''Kovil'' store))))),
              (''yearMoved'',
                 JArr (map (year_entry date_text)
                   (sort_by (\<lambda>a b. bson_le (fst a) (fst b))
                      (groups rx ''YearSince'' store))))])"
      using True by (simp add: analytics_eq)
    then show ?thesis
      using sorted_wrt_take [OF sorted_by_count_desc] sorted_by_key_asc by blast
  qed
qed

text \<open>
  Measured against the groups the pipelines form (a group keyed null among them when a
  record has no value for the field), each truncated sequence of /analytics is a choice
  of the 10 highest-count groups, and the year sequence holds every group.
\<close>

lemma analytics_top_of_pipeline_groups:
  assumes "analytics rx date_text store \<noteq> internal_error"
  shows "\<exists>vs cs ks ys.
       analytics rx date_text store =
         Response 200
           (JObj
             [(''nativeVillage'', JArr (map named_entry vs)),
              (''cityResidence'', JArr (map named_entry cs)),
              (''nagaraKovil'', JArr (map named_entry ks)),
              (''yearMoved'', JArr (map (year_entry date_text) ys))]) \<and>
       top_groups 10 (groups rx ''Chettinad native place'' store) vs \<and>
       top_groups 10 (groups rx ''City'' store) cs \<and>
       top_groups 10 (groups rx ''Kovil'' store) ks \<and>
       length ys = length (groups rx ''YearSince'' store) \<and>
       set ys = set (groups rx ''YearSince'' store)"
proof -
  have top: "top_groups 10 gs (take 10 (sort_by (\<lambda>a b. snd b \<le> snd a) gs))" for gs
  proof (rule top_groups_take)
    show "sorted_wrt (\<lambda>a b. snd b \<le> snd a) (sort_by (\<lambda>a b. snd b \<le> snd a) gs)"
      by (rule sorted_sort_by) auto
  qed (simp_all add: set_sort_by length_sort_by)
  from assms have "list_all (\<lambda>g. fst g \<noteq> Null) (groups rx ''YearSince'' store)"
    by (auto simp: analytics_eq split: if_splits)
  then have "analytics rx date_text store =
         Response 200
           (JObj
             [(''nativeVillage'',
                 JArr (map named_entry
                   (take 10 (sort_by (\<lambda>a b. snd b \<le> snd a)
                      (groups rx ''Chettinad native place'' store))))),
              (''cityResidence'',
                 JArr (map named_entry
                   (take 10 (sort_by (\<lambda>a b. snd b \<le> snd a) (groups rx ''City'' store))))),
              (''nagaraKovil'',
                 JArr (map named_entry
                   (take 10 (sort_by (\<lambda>a b. snd b \<le> snd a) (groups rx ''Kovil'' store))))),
              (''yearMoved'',
                 JArr (map (year_entry date_text)
                   (sort_by (\<lambda>a b. bson_le (fst a) (fst b))
                      (groups rx ''YearSince'' store))))])"
    by (simp add: analytics_eq)
  moreover have
    "length (sort_by (\<lambda>a b. bson_le (fst a) (fst b)) (groups rx ''YearSince'' store)) =
      length (groups rx ''YearSince'' store)"
    by (rule length_sort_by)
  moreover have
    "set (sort_by (\<lambda>a b. bson_le (fst a) (fst b)) (groups rx ''YearSince'' store)) =
      set (groups rx ''YearSince'' store)"
    by (rule set_sort_by)
  ultimately show ?thesis
    by (intro exI conjI) (assumption, rule top, rule top, rule top, assumption, assumption)
qed

text \<open>
  C6. In the combined statistics view a truncated sequence is to hold no more than 10
  entries, each one of the 10 highest-count groups of its field, where a group is a
  distinct non-empty value. On the example collection with three more members that
  have no native village, no city and no temple, the village field has eleven such
  groups (the second part of the statement), and /analytics answers with ten village
  entries of which the first is \<open>{ name: null, count: 3 }\<close>, no group of a non-empty
  value, and the villages Nattarasankottai and Rayavaram are left out; the city and
  temple sequences hold the same null entry.
\<close>

theorem analytics_null_group_in_top10:
  "analytics literal_only (\<lambda>t. []) sample_with_blanks =
     Response 200
       (JObj
         [(''nativeVillage'',
             JArr (map named_entry
               [(Null, 3), (Str ''Karaikudi'', 2), (Str ''Devakottai'', 1), (Str ''Pallathur'', 1),
                (Str ''Kanadukathan'', 1), (Str ''Kothamangalam'', 1), (Str ''Kandanur'', 1),
                (Str ''Puduvayal'', 1), (Str ''Athangudi'', 1), (Str ''Kottaiyur'', 1)])),
          (''cityResidence'',
             JArr (map named_entry
               [(Str ''Chennai'', 3), (Null, 3), (Str ''Madurai'', 1), (Str ''Trichy'', 1),
                (Str ''Salem'', 1), (Str ''Erode'', 1), (Str ''Karur'', 1), (Str ''Ooty'', 1),
                (Str ''Vellore'', 1), (Str ''Tirupur'', 1)])),
          (''nagaraKovil'',
             JArr (map named_entry
               [(Str ''Mathur'', 4), (Null, 3), (Str ''Nemam'', 2), (Str ''Vairavan'', 1),
                (Str ''Iraniyur'', 1), (Str ''Pillaiyarpatti'', 1), (Str ''Ilayathakudi'', 1),
                (Str ''Soorakudi'', 1), (Str ''Velangudi'', 1)])),
          (''yearMoved'',
             JArr (map (year_entry (\<lambda>t. []))
               [(Num 1987, 1), (Num 1995, 1), (Num 1999, 1), (Num 2001, 1), (Num 2003, 1),
                (Num 2005, 3), (Num 2007, 1), (Num 2010, 1), (Num 2011, 1), (Num 2012, 1),
                (Num 2013, 1), (Num 2015, 1), (Num 2020, 1)]))]) \<and>
   nonempty_groups ''Chettinad native place'' sample_with_blanks =
     [(Str ''Karaikudi'', 2), (Str ''Devakottai'', 1), (Str ''Pallathur'', 1),
      (Str ''Kanadukathan'', 1), (Str ''Kothamangalam'', 1), (Str ''Kandanur'', 1),
      (Str ''Puduvayal'', 1), (Str ''Athangudi'', 1), (Str ''Kottaiyur'', 1),
      (Str ''Nattarasankottai'', 1), (Str ''Rayavaram'', 1)]"
proof -
  have t: "nonempty_groups ''Chettinad native place'' sample_with_blanks =
     [(Str ''Karaikudi'', 2), (Str ''Devakottai'', 1), (Str ''Pallathur'', 1),
      (Str ''Kanadukathan'', 1), (Str ''Kothamangalam'', 1), (Str ''Kandanur'', 1),
      (Str ''Puduvayal'', 1), (Str ''Athangudi'', 1), (Str ''Kottaiyur'', 1),
      (Str ''Nattarasankottai'', 1), (Str ''Rayavaram'', 1)]"
    by code_simp
  have v: "take 10 (sort_by (\<lambda>a b. snd b \<le> snd a)
             (groups literal_only ''Chettinad native place'' sample_with_blanks)) =
       [(Null, 3), (Str ''Karaikudi'', 2), (Str ''Devakottai'', 1), (Str ''Pallathur'', 1),
        (Str ''Kanadukathan'', 1), (Str ''Kothamangalam'', 1), (Str ''Kandanur'', 1),
        (Str ''Puduvayal'', 1), (Str ''Athangudi'', 1), (Str ''Kottaiyur'', 1)]"
    by code_simp
  have c: "take 10 (sort_by (\<lambda>a b. snd b \<le> snd a)
             (groups literal_only ''City'' sample_with_blanks)) =
       [(Str ''Chennai'', 3), (Null, 3), (Str ''Madurai'', 1), (Str ''Trichy'', 1),
        (Str ''Salem'', 1), (Str ''Erode'', 1), (Str ''Karur'', 1), (Str ''Ooty'', 1),
        (Str ''Vellore'', 1), (Str ''Tirupur'', 1)]"
    by code_simp
  have k: "take 10 (sort_by (\<lambda>a b. snd b \<le> snd a)
             (groups literal_only ''Kovil'' sample_with_blanks)) =
       [(Str ''Mathur'', 4), (Null, 3), (Str ''Nemam'', 2), (Str ''Vairavan'', 1),
        (Str ''Iraniyur'', 1), (Str ''Pillaiyarpatti'', 1), (Str ''Ilayathakudi'', 1),
        (Str ''Soorakudi'', 1), (Str ''Velangudi'', 1)]"
    by code_simp
  have g: "groups literal_only ''YearSince'' sample_with_blanks =
       [(Num 2005, 3), (Num 1999, 1), (Num 2010, 1), (Num 1987, 1), (Num 2001, 1),
        (Num 2015, 1), (Num 1995, 1), (Num 2020, 1), (Num 2003, 1), (Num 2007, 1),
        (Num 2011, 1), (Num 2012, 1), (Num 2013, 1)]"
    by code_simp
  have y: "sort_by (\<lambda>a b. bson_le (fst a) (fst b))
       [(Num 2005, 3), (Num 1999, 1), (Num 2010, 1), (Num 1987, 1), (Num 2001, 1),
        (Num 2015, 1), (Num 1995, 1), (Num 2020, 1), (Num 2003, 1), (Num 2007, 1),
        (Num 2011, 1), (Num 2012, 1), (Num 2013, 1 :: nat)] =
       [(Num 1987, 1), (Num 1995, 1), (Num 1999, 1), (Num 2001, 1), (Num 2003, 1),
        (Num 2005, 3), (Num 2007, 1), (Num 2010, 1), (Num 2011, 1), (Num 2012, 1),
        (Num 2013, 1), (Num 2015, 1), (Num 2020, 1)]"
    by (simp add: sort_by_def)
  have n: "list_all (\<lambda>g. fst g \<noteq> Null)
       [(Num 2005, 3), (Num 1999, 1), (Num 2010, 1), (Num 1987, 1), (Num 2001, 1),
        (Num 2015, 1), (Num 1995, 1), (Num 2020, 1), (Num 2003, 1), (Num 2007, 1),
        (Num 2011, 1), (Num 2012, 1), (Num 2013, 1 :: nat)]"
    by simp
  have "analytics literal_only (\<lambda>t. []) sample_with_blanks =
     Response 200
       (JObj
         [(''nativeVillage'',
             JArr (map named_entry
               [(Null, 3), (Str ''Karaikudi'', 2), (Str ''Devakottai'', 1), (Str ''Pallathur'', 1),
                (Str ''Kanadukathan'', 1), (Str ''Kothamangalam'', 1), (Str ''Kandanur'', 1),
                (Str ''Puduvayal'', 1), (Str ''Athangudi'', 1), (Str ''Kottaiyur'', 1)])),
          (''cityResidence'',
             JArr (map named_entry
               [(Str ''Chennai'', 3), (Null, 3), (Str ''Madurai'', 1), (Str ''Trichy'', 1),
                (Str ''Salem'', 1), (Str ''Erode'', 1), (Str ''Karur'', 1), (Str ''Ooty'', 1),
                (Str ''Vellore'', 1), (Str ''Tirupur'', 1)])),
          (''nagaraKovil'',
             JArr (map named_entry
               [(Str ''Mathur'', 4), (Null, 3), (Str ''Nemam'', 2), (Str ''Vairavan'', 1),
                (Str ''Iraniyur'', 1), (Str ''Pillaiyarpatti'', 1), (Str ''Ilayathakudi'', 1),
                (Str ''Soorakudi'', 1), (Str ''Velangudi'', 1)])),
          (''yearMoved'',
             JArr (map (year_entry (\<lambda>t. []))
               [(Num 1987, 1), (Num 1995, 1), (Num 1999, 1), (Num 2001, 1), (Num 2003, 1),
                (Num 2005, 3), (Num 2007, 1), (Num 2010, 1), (Num 2011, 1), (Num 2012, 1),
                (Num 2013, 1), (Num 2015, 1), (Num 2020, 1)]))])"
    by (simp only: analytics_eq v c k g y n if_True)
  with t show ?thesis by (rule conjI [rotated])
qed

subsection \<open>Searching and updating\<close>

lemma regex_holds_compiled:
  "compile rx pat = Some m \<Longrightarrow> regex_holds rx pat v = (case v of Some (Str s) \<Rightarrow> m s | _ \<Rightarrow> False)"
  by (cases v; cases "the v") (auto)

lemma matches_regex_field:
  "compile rx pat = Some m \<Longrightarrow> matches rx (Obj [FieldIs f (RegexI pat)]) d = text_matches m d f"
  by (simp add: regex_holds_compiled text_matches_def)

lemma members_query_ok: "query_ok rx (members_query search) \<longleftrightarrow> compile rx search \<noteq> None"
  by (simp add: members_query_def)

lemma members_query_matches:
  "compile rx search = Some m \<Longrightarrow>
   matches rx (members_query search) d = list_ex (text_matches m d) search_fields"
  by (simp add: members_query_def search_fields_def regex_holds_compiled text_matches_def)

lemma compile_literal: "literal pat \<Longrightarrow> compile rx pat = Some (ci_contains pat)"
  by (simp add: compile_def)

lemma literal_Nil [simp]: "literal []"
  by (simp add: literal_def)

lemma contains_Nil [simp]: "contains [] s"
  by (induction s) auto

lemma ci_contains_Nil [simp]: "ci_contains [] s"
  by (simp add: ci_contains_def)

lemma text_matches_empty: "text_matches (ci_contains []) d f = holds_text d f"
  by (simp add: text_matches_def holds_text_def split: option.splits bval.splits)

text \<open>
  C2 (as amended). With an empty search term the free-text predicate of /members
  matches exactly the records that hold a string in at least one of the six searched
  fields; so the predicate alone returns a record set unchanged exactly when each of
  its records holds such a string.
\<close>

theorem empty_search_matches:
  "(matches rx (members_query []) d \<longleftrightarrow> list_ex (holds_text d) search_fields) \<and>
   (filter (matches rx (members_query [])) store = store \<longleftrightarrow>
      list_all (\<lambda>d. list_ex (holds_text d) search_fields) store)"
proof -
  have m: "matches rx (members_query []) d = list_ex (holds_text d) search_fields" for d
    using members_query_matches [OF compile_literal [OF literal_Nil], of rx d]
    by (simp add: text_matches_empty [abs_def])
  then show ?thesis
    by (simp add: filter_id_conv list_all_iff)
qed

text \<open>
  A record with an e-mail address and none of the six fields is not matched by the
  empty term: the member list of a collection that holds only this record is empty.
\<close>

theorem empty_search_matches_counterexample:
  "members literal_only
     [[(''_id'', ObjId ''650000000000000000000001''), (''Email'', Str ''meena@example.org'')]]
     (Some []) None None = Response 200 (JArr []) \<and>
   \<not> matches literal_only (members_query [])
     [(''_id'', ObjId ''650000000000000000000001''), (''Email'', Str ''meena@example.org'')]"
  by code_simp


lemma eq_holds_Str: "eq_holds (Str v) x \<longleftrightarrow> x = Some (Str v)"
  by (cases x) auto

lemma category_query_ok:
  "compile rx search = Some m \<Longrightarrow> query_ok rx (category_query f v search)"
  by (simp add: category_query_def name_filter_def Let_def)

lemma category_query_matches:
  assumes "search \<noteq> []" "js_trim search \<noteq> []" "compile rx search = Some m"
  shows "matches rx (category_query f v search) d \<longleftrightarrow>
           map_of d f = Some (Str v) \<and> list_ex (text_matches m d) name_fields"
  using assms
  by (auto simp: category_query_def name_filter_def name_fields_def Let_def eq_holds_Str
        regex_holds_compiled text_matches_def)

lemma drop_prefixes_Nil [simp]: "drop_prefixes ws [] = []"
proof -
  have "\<not> (w \<noteq> [] \<and> starts_with w [])" for w :: "'a list"
    by (cases w) auto
  then have "List.find (\<lambda>w. w \<noteq> [] \<and> starts_with w []) ws = None"
    by (simp add: find_None_iff)
  then show ?thesis
    by (subst drop_prefixes.simps) simp
qed

lemma js_trim_Nil [simp]: "js_trim [] = []"
  by (simp add: js_trim_def)

text \<open>A no-break space (U+00A0) is white space: a term that consists of it trims to
  nothing, and the handler sends the category condition alone.\<close>

lemma js_trim_no_break_space: "js_trim [CHR 0xC2, CHR 0xA0] = []"
  by code_simp

lemma no_break_space_is_no_term:
  "category_query ''City'' ''Chennai'' [CHR 0xC2, CHR 0xA0] =
     Obj [FieldIs ''City'' (Eq (Str ''Chennai''))]"
  by code_simp

lemma skip_limit_none [simp]: "skip_limit 0 0 xs = Inr xs"
  by (simp add: skip_limit_def)

text \<open>
  C3 (as amended). For each of the four categories (nativeVillage selects the native
  village field, cityResidence the city, nagaraKovil the temple, yearMoved the year),
  a non-empty value and a search term that has a character other than white space
  (the white space that \<open>trim\<close> removes) and that the store accepts as a pattern,
  /members/by-category sends one query and answers with the records (in the category
  view, by ascending first name) whose selected field equals the value exactly and
  one of whose four name fields holds a string the term matches; for a term without
  metacharacters that is a string that contains the term, letter case ignored. The
  city and the native village are not looked at by the text match.
\<close>

theorem category_and_name_search:
  assumes "(category, f) \<in>
      {(''nativeVillage'', ''Chettinad native place''), (''cityResidence'', ''City''),
       (''nagaraKovil'', ''Kovil''), (''yearMoved'', ''YearSince'')}"
    and "v \<noteq> []"
    and "js_trim search \<noteq> []"
    and "compile rx search = Some m"
  shows "by_category rx store (Some category) (Some v) (Some search) =
           (Response 200
              (JArr (map doc_json
                 (map (project category_view)
                    (sort_docs ''First name'' 1
                       (filter
                          (\<lambda>d. map_of d f = Some (Str v) \<and> list_ex (text_matches m d) name_fields)
                          store))))),
            [category_query f v search]) \<and>
         (literal search \<longrightarrow> m = ci_contains search)"
proof -
  from assms(3) have ne: "search \<noteq> []" by auto
  have field: "category_field category = Some f"
    using assms(1) by (auto simp: category_field_def)
  have cat: "category \<noteq> []"
    using assms(1) by auto
  have flt: "filter (matches rx (category_query f v search)) store =
      filter (\<lambda>d. map_of d f = Some (Str v) \<and> list_ex (text_matches m d) name_fields) store"
    by (rule filter_cong [OF refl]) (simp add: category_query_matches [OF ne assms(3,4)])
  have "by_category rx store (Some category) (Some v) (Some search) =
           (Response 200
              (JArr (map doc_json
                 (map (project category_view)
                    (sort_docs ''First name'' 1
                       (filter
                          (\<lambda>d. map_of d f = Some (Str v) \<and> list_ex (text_matches m d) name_fields)
                          store))))),
            [category_query f v search])"
    using field assms(2) cat category_query_ok [OF assms(4)]
    by (simp add: by_category_def falsy_def find_cursor_def flt)
  moreover have "literal search \<longrightarrow> m = ci_contains search"
    using assms(4) by (auto simp: compile_def)
  ultimately show ?thesis by blast
qed

theorem category_and_name_search_witness:
  "(''cityResidence'', ''City'') \<in>
      {(''nativeVillage'', ''Chettinad native place''), (''cityResidence'', ''City''),
       (''nagaraKovil'', ''Kovil''), (''yearMoved'', ''YearSince'')} \<and>
   js_trim ''kumar'' \<noteq> [] \<and>
   compile literal_only ''kumar'' = Some (ci_contains ''kumar'') \<and>
   by_category literal_only sample_members (Some ''cityResidence'') (Some ''Chennai'') (Some ''kumar'') =
     (Response 200
        (JArr [doc_json
           (member_doc ''650000000000000000000003'' ''Kumar'' ''Chennai'' ''Pallathur'' ''Mathur'' 2010)]),
      [category_query ''City'' ''Chennai'' ''kumar''])"
proof -
  have c: "(''cityResidence'', ''City'') \<in>
      {(''nativeVillage'', ''Chettinad native place''), (''cityResidence'', ''City''),
       (''nagaraKovil'', ''Kovil''), (''yearMoved'', ''YearSince'')}"
    by simp
  have v: "''Chennai'' \<noteq> []" by simp
  have t: "js_trim ''kumar'' \<noteq> []"
    by code_simp
  have m: "compile literal_only ''kumar'' = Some (ci_contains ''kumar'')"
    by (simp add: compile_def literal_def literal_char_def regex_meta_def)
  have r: "map (project category_view)
             (sort_docs ''First name'' 1
                (filter
                   (\<lambda>d. map_of d ''City'' = Some (Str ''Chennai'') \<and>
                        list_ex (text_matches (ci_contains ''kumar'') d) name_fields)
                   sample_members)) =
           [member_doc ''650000000000000000000003'' ''Kumar'' ''Chennai'' ''Pallathur'' ''Mathur'' 2010]"
    by code_simp
  have "by_category literal_only sample_members (Some ''cityResidence'') (Some ''Chennai'')
          (Some ''kumar'') =
     (Response 200
        (JArr [doc_json
           (member_doc ''650000000000000000000003'' ''Kumar'' ''Chennai'' ''Pallathur'' ''Mathur'' 2010)]),
      [category_query ''City'' ''Chennai'' ''kumar''])"
    using category_and_name_search [OF c v t m, of sample_members]
    by (simp only: r list.map)
  with c t m show ?thesis by blast
qed

text \<open>
  The search term of one space is not empty, yet the handler treats it as no term: the
  record from Chennai is returned although none of its name fields contains a space.
\<close>

theorem category_and_name_search_counterexample:
  "fst (by_category literal_only
          [[(''_id'', ObjId ''650000000000000000000003''), (''First name'', Str ''Kumar''),
            (''City'', Str ''Chennai'')]]
          (Some ''cityResidence'') (Some ''Chennai'') (Some '' '')) =
     Response 200
       (JArr [JObj [(''_id'', JV (ObjId ''650000000000000000000003'')),
                    (''First name'', JV (Str ''Kumar'')), (''City'', JV (Str ''Chennai''))]]) \<and>
   \<not> list_ex
       (text_matches (ci_contains '' '')
          [(''_id'', ObjId ''650000000000000000000003''), (''First name'', Str ''Kumar''),
           (''City'', Str ''Chennai'')])
       name_fields"
  by code_simp

lemma map_of_project:
  "map_of (project fields d) k = (if k \<in> set fields then map_of d k else None)"
  unfolding project_def by (induction d) auto

lemma fld_project_first_name [simp]:
  "fld (project list_view d) ''First name'' = fld d ''First name''"
  by (simp add: fld_def map_of_project list_view_def)

lemma sorted_sort_docs:
  "sorted_wrt (\<lambda>a b. bson_le (fld a f) (fld b f)) (sort_docs f 1 ds)"
proof -
  have "sorted_wrt (doc_le f 1) (sort_by (doc_le f 1) ds)"
    by (rule sorted_sort_by) (auto simp: doc_le_def bson_le_total intro: bson_le_trans)
  then show ?thesis
    by (simp add: sort_docs_def doc_le_def [abs_def])
qed

lemma sorted_listing: "sorted_wrt by_first_name (listing rx search store)"
  using sorted_sort_docs [of "''First name''"]
  by (simp add: listing_def sorted_wrt_map by_first_name_def [abs_def])

lemma members_page:
  assumes "1 \<le> page" "1 \<le> limit" "compile rx search = Some m"
  shows "members rx store (Some search) (Some page) (Some limit) =
           Response 200
             (JArr (map doc_json
                (take (nat limit) (drop (nat ((page - 1) * limit)) (listing rx search store)))))"
proof -
  have "0 \<le> (page - 1) * limit" using assms(1,2) by simp
  moreover have "limit \<noteq> 0" "\<bar>limit\<bar> = limit" using assms(2) by auto
  ultimately show ?thesis
    using assms(3)
    by (simp add: members_def find_cursor_def members_query_ok skip_limit_def listing_def
        take_map drop_map Let_def)
qed

text \<open>
  C8 (as amended). For a page of at least 1, a limit of at least 1 and a search term
  the store accepts as a pattern, /members answers with the records from offset
  (page - 1) * limit of the full result, at most limit of them, where the full result
  is the matching records in ascending order of first name; for page 2 and limit 20
  these are the elements 20 to 39. An absent page counts as 1, an absent limit as 20
  and an absent search term as the empty term.
\<close>

theorem members_pagination:
  assumes "1 \<le> page" "1 \<le> limit" "compile rx search = Some m"
  shows "members rx store (Some search) (Some page) (Some limit) =
           Response 200
             (JArr (map doc_json
                (take (nat limit) (drop (nat ((page - 1) * limit)) (listing rx search store))))) \<and>
         sorted_wrt by_first_name (listing rx search store) \<and>
         members rx store (Some search) (Some 2) (Some 20) =
           Response 200 (JArr (map doc_json (take 20 (drop 20 (listing rx search store))))) \<and>
         members rx store (Some search) None (Some limit) =
           members rx store (Some search) (Some 1) (Some limit) \<and>
         members rx store (Some search) (Some page) None =
           members rx store (Some search) (Some page) (Some 20) \<and>
         members rx store None (Some page) (Some limit) =
           members rx store (Some []) (Some page) (Some limit)"
proof (intro conjI)
  show "members rx store (Some search) (Some page) (Some limit) =
           Response 200
             (JArr (map doc_json
                (take (nat limit) (drop (nat ((page - 1) * limit)) (listing rx search store)))))"
    by (rule members_page [OF assms])
  show "sorted_wrt by_first_name (listing rx search store)"
    by (rule sorted_listing)
  show "members rx store (Some search) (Some 2) (Some 20) =
           Response 200 (JArr (map doc_json (take 20 (drop 20 (listing rx search store)))))"
    using members_page [of 2 20, OF _ _ assms(3), of store] by simp
qed (simp_all add: members_def)

theorem members_pagination_witness:
  "compile literal_only [] = Some (ci_contains []) \<and>
   members literal_only sample_members (Some []) (Some 2) (Some 5) =
     Response 200
       (JArr (map doc_json (take 5 (drop 5 (listing literal_only [] sample_members))))) \<and>
   map (\<lambda>d. fld d ''First name'') (take 5 (drop 5 (listing literal_only [] sample_members))) =
     [Str ''Lakshmi'', Str ''Mani'', Str ''Meena'', Str ''Ramu'', Str ''Sita'']"
proof -
  have m: "compile literal_only [] = Some (ci_contains [])"
    by (simp add: compile_def)
  have names:
    "map (\<lambda>d. fld d ''First name'') (take 5 (drop 5 (listing literal_only [] sample_members))) =
     [Str ''Lakshmi'', Str ''Mani'', Str ''Meena'', Str ''Ramu'', Str ''Sita'']"
    by code_simp
  show ?thesis
    using members_pagination [of 2 5 literal_only "[]" "ci_contains []" sample_members] m names
    by simp
qed

text \<open>
  With limit 0 the store applies no limit: both records of the collection are
  returned.
\<close>

theorem members_pagination_counterexample:
  "members literal_only
     [[(''_id'', ObjId ''650000000000000000000001''), (''First name'', Str ''Meena'')],
      [(''_id'', ObjId ''650000000000000000000002''), (''First name'', Str ''Anna'')]]
     None None (Some 0) =
   Response 200
     (JArr [JObj [(''_id'', JV (ObjId ''650000000000000000000002'')), (''First name'', JV (Str ''Anna''))],
            JObj [(''_id'', JV (ObjId ''650000000000000000000001'')), (''First name'', JV (Str ''Meena''))]])"
  by code_simp

subsection \<open>Update paths\<close>






lemma get_path_Nil_doc [simp]: "get_path p [] = None"
  by (induction p "[] :: doc" rule: get_path.induct) auto








lemma starts_with_single [simp]: "starts_with [a] [b] \<longleftrightarrow> a = b"
  by simp




subsection \<open>The body of an update\<close>











subsection \<open>PUT /members/:id\<close>

lemma id_query_matches:
  "object_id ident = Some oid \<Longrightarrow>
   matches rx (Obj [FieldIs ''_id'' (Eq oid)]) d \<longleftrightarrow> map_of d ''_id'' = Some oid"
  by (cases "map_of d ''_id''") (auto simp: object_id_def split: if_splits)



lemma update_first_none_matched:
  "update_first p fields store = Inr (0, store') \<Longrightarrow> store' = store"
  by (induction store arbitrary: store') (auto split: if_splits sum.splits)

lemma update_first_no_match:
  "list_all (\<lambda>d. \<not> p d) store \<Longrightarrow> update_first p fields store = Inr (0, store)"
  by (induction store) auto


lemma put_member_unfold:
  "put_member rx now store ident body =
     (case object_id ident of
        None \<Rightarrow> (internal_error, store)
      | Some oid \<Rightarrow>
          (case update_one rx (Obj [FieldIs ''_id'' (Eq oid)]) (fields_to_update now body) store of
             Inl e \<Rightarrow> (internal_error, store)
           | Inr (matchedCount, store') \<Rightarrow>
               if matchedCount = 0 then (Response 404 (message ''Member not found''), store')
               else
                 (case find_one rx (Obj [FieldIs ''_id'' (Eq oid)]) store' of
                    Inl e \<Rightarrow> (internal_error, store')
                  | Inr updatedMember \<Rightarrow>
                      (Response 200
                         (JObj
                           [(''message'', JV (Str ''Profile updated successfully'')),
                            (''member'',
                               (case updatedMember of None \<Rightarrow> JV Null | Some m \<Rightarrow> doc_json m))]),
                       store'))))"
  unfolding put_member_def fields_to_update_def Let_def by (rule refl)


lemma put_member_unchanged_unless_ok:
  "(\<exists>b. fst (put_member rx now store ident body) = Response 200 b) \<or>
   snd (put_member rx now store ident body) = store"
  unfolding put_member_unfold
  by (auto simp: update_one_def find_one_def split: option.splits sum.splits if_splits
      dest: update_first_none_matched)

text \<open>A well-formed identifier that no record has, with an update the store accepts
  (a name in dot notation included), is answered with 404.\<close>

lemma put_member_not_found:
  assumes "object_id ident = Some oid"
    and "list_all (\<lambda>d. map_of d ''_id'' \<noteq> Some oid) store"
    and "valid_update (fields_to_update now body)"
  shows "put_member rx now store ident body =
           (Response 404 (message ''Member not found''), store)"
proof -
  have "list_all (\<lambda>d. \<not> matches rx (Obj [FieldIs ''_id'' (Eq oid)]) d) store"
    using assms(2) id_query_matches [OF assms(1)] by (simp add: list_all_iff)
  then have "update_first (matches rx (Obj [FieldIs ''_id'' (Eq oid)]))
      (fields_to_update now body) store = Inr (0, store)"
    by (rule update_first_no_match)
  then show ?thesis
    using assms(1,3) by (simp add: put_member_unfold update_one_def)
qed

lemma put_member_not_found_dotted:
  "put_member literal_only 1700000000
     [[(''_id'', ObjId ''650000000000000000000001''), (''First name'', Str ''Meena'')]]
     ''650000000000000000000099'' [(''address.city'', Str ''Karaikudi'')] =
   (Response 404 (JObj [(''message'', JV (Str ''Member not found''))]),
    [[(''_id'', ObjId ''650000000000000000000001''), (''First name'', Str ''Meena'')]])"
  by code_simp


text \<open>
  C9. A profile update whose identifier matches no stored record is to be answered
  with not-found, the collection left as it was. \<open>PUT /members/abc\<close> on a collection
  of one record: no record has the identifier \<open>abc\<close>, and the answer is 500
  \<open>Internal server error\<close>, not 404, because \<open>new ObjectId(id)\<close> throws inside the
  handler's \<open>try\<close> (the handler has no \<open>ObjectId.isValid\<close> check, which
  \<open>GET /members/get/:id\<close> has). The collection is as it was.
\<close>

theorem update_malformed_identifier:
  "put_member literal_only 1700000000
     [[(''_id'', ObjId ''650000000000000000000001''), (''First name'', Str ''Meena'')]]
     ''abc'' [(''City'', Str ''Madurai'')] =
   (Response 500 (JObj [(''message'', JV (Str ''Internal server error''))]),
    [[(''_id'', ObjId ''650000000000000000000001''), (''First name'', Str ''Meena'')]])"
  by code_simp



end
